theory Spec2Isabelle
  imports Main
begin

section \<open>Data model\<close>

text \<open>
  The struct \<^verbatim>\<open>models.Book\<close> (models/book.go). Go's \<^verbatim>\<open>int\<close> is taken as the 64-bit
  type of the usual targets; the handlers do no arithmetic on \<open>ID\<close> and \<open>Year\<close>, so they are
  integers here and every range check of the program is written out where it happens.
\<close>

record Book =
  ID :: int
  Title :: string
  Author :: string
  Year :: int

text \<open>JSON values as \<^verbatim>\<open>encoding/json\<close> writes them for the types the handlers encode.\<close>

datatype json =
    JNull
  | JNumber int
  | JString string
  | JArray "json list"
  | JObject "(string \<times> json) list"

text \<open>
  The error values the handlers can see: the two failures of \<^verbatim>\<open>strconv.Atoi\<close>, a failure of
  the JSON decoder (with its message), \<^verbatim>\<open>sql.ErrNoRows\<close>, and an error number sent by the
  MySQL server.
\<close>

datatype error =
    ErrSyntax
  | ErrRange
  | DecodeError string
  | ErrNoRows
  | MySQLError nat

text \<open>
  What a handler writes: \<open>Text m\<close> is \<^verbatim>\<open>http.Error(w, m, code)\<close> with a fixed message,
  \<open>Textf m err\<close> is \<^verbatim>\<open>http.Error(w, fmt.Sprintf(m + "%v", err), code)\<close>, and \<open>Json v\<close> is
  \<^verbatim>\<open>json.NewEncoder(w).Encode(v)\<close>.
\<close>

datatype payload = Text string | Textf string error | Json json

record response =
  status :: nat
  payload :: payload

definition http_Error :: "payload \<Rightarrow> nat \<Rightarrow> response" where
  "http_Error msg code = \<lparr>status = code, payload = msg\<rparr>"

definition book_json :: "Book \<Rightarrow> json" where
  "book_json b =
     JObject [(''id'', JNumber (ID b)), (''title'', JString (Title b)),
              (''author'', JString (Author b)), (''year'', JNumber (Year b))]"

text \<open>
  A Go slice of books is \<open>None\<close> when it is nil and \<open>Some xs\<close> otherwise: the encoder writes
  \<^verbatim>\<open>null\<close> for the former and an array for the latter.
\<close>

definition append_slice :: "'a list option \<Rightarrow> 'a \<Rightarrow> 'a list option" where
  "append_slice s x = (case s of None \<Rightarrow> Some [x] | Some xs \<Rightarrow> Some (xs @ [x]))"

definition books_json :: "Book list option \<Rightarrow> json" where
  "books_json s = (case s of None \<Rightarrow> JNull | Some xs \<Rightarrow> JArray (map book_json xs))"

section \<open>The path identifier: strconv.Atoi\<close>

text \<open>
  \<^verbatim>\<open>strconv.Atoi\<close> on a 64-bit target, which is \<^verbatim>\<open>ParseInt(s, 10, 0)\<close> (its fast path
  for short strings computes the same): an optional sign, then one or more ASCII digits
  and nothing else. \<^verbatim>\<open>ParseUint\<close> reads the digits from the left and stops with
  \<open>ErrSyntax\<close> at a character that is no digit and with \<open>ErrRange\<close> as soon as the value
  exceeds 64 bits; the signed value is then checked against the 64-bit signed range.
\<close>

definition digit :: "char \<Rightarrow> int option" where
  "digit c = (let k = (of_char c :: int) in if 48 \<le> k \<and> k \<le> 57 then Some (k - 48) else None)"

fun ParseUint :: "string \<Rightarrow> int \<Rightarrow> error + int" where
  "ParseUint [] n = Inr n"
| "ParseUint (c # cs) n =
     (case digit c of
        None \<Rightarrow> Inl ErrSyntax
      | Some k \<Rightarrow>
          if 2 ^ 64 - 1 < n * 10 + k then Inl ErrRange else ParseUint cs (n * 10 + k))"

definition Atoi :: "string \<Rightarrow> error + int" where
  "Atoi s =
     (case s of
        [] \<Rightarrow> Inl ErrSyntax
      | c # cs \<Rightarrow>
          let neg = (c = CHR ''-'');
              ds = (if c = CHR ''-'' \<or> c = CHR ''+'' then cs else s)
          in
            if ds = [] then Inl ErrSyntax
            else
              (case ParseUint ds 0 of
                 Inl err \<Rightarrow> Inl err
               | Inr un \<Rightarrow>
                   if \<not> neg \<and> 2 ^ 63 \<le> un then Inl ErrRange
                   else if neg \<and> 2 ^ 63 < un then Inl ErrRange
                   else Inr (if neg then - un else un)))"

section \<open>The store: table books on a MySQL server\<close>

text \<open>
  The table as \<^verbatim>\<open>InitDB\<close> creates it (database/database.go):
  \<^verbatim>\<open>
  CREATE TABLE IF NOT EXISTS books (
      id INT AUTO_INCREMENT PRIMARY KEY,
      title VARCHAR(255) NOT NULL,
      author VARCHAR(255) NOT NULL,
      YEAR INT NOT NULL)
  \<close>
  A row is \<open>(id, title, author, year)\<close>. The state of the store is the list of rows in the
  order of insertion, the next value of the AUTO_INCREMENT counter, and whether the server
  runs in strict SQL mode (a value that does not fit its column is then an error; otherwise
  the value is cut to fit). A string is the list of its characters. Loss of the connection
  is not part of the state: a statement fails only when the server rejects it, with error
  1406 (data too long for a column), 1264 (value out of range for a column) or 1062
  (duplicate entry for the primary key).
\<close>

type_synonym row = "int \<times> string \<times> string \<times> int"

definition row_id :: "row \<Rightarrow> int" where
  "row_id r = fst r"

record db =
  books :: "row list"
  auto_increment :: int
  strict :: bool

definition INT_MIN :: int where
  "INT_MIN = - 2147483648"

definition INT_MAX :: int where
  "INT_MAX = 2147483647"

definition store_varchar :: "bool \<Rightarrow> string \<Rightarrow> error + string" where
  "store_varchar strict_mode s =
     (if length s \<le> 255 then Inr s
      else if strict_mode then Inl (MySQLError 1406)
      else Inr (take 255 s))"

definition store_int :: "bool \<Rightarrow> int \<Rightarrow> error + int" where
  "store_int strict_mode v =
     (if INT_MIN \<le> v \<and> v \<le> INT_MAX then Inr v
      else if strict_mode then Inl (MySQLError 1264)
      else Inr (if v < INT_MIN then INT_MIN else INT_MAX))"

text \<open>The three values of an INSERT or UPDATE, converted to their columns in order.\<close>

definition store_values :: "bool \<Rightarrow> string \<Rightarrow> string \<Rightarrow> int \<Rightarrow> error + string \<times> string \<times> int" where
  "store_values strict_mode t a y =
     (case store_varchar strict_mode t of
        Inl err \<Rightarrow> Inl err
      | Inr t' \<Rightarrow>
          (case store_varchar strict_mode a of
             Inl err \<Rightarrow> Inl err
           | Inr a' \<Rightarrow>
               (case store_int strict_mode y of
                  Inl err \<Rightarrow> Inl err
                | Inr y' \<Rightarrow> Inr (t', a', y'))))"

text \<open>What \<^verbatim>\<open>db.Exec\<close> returns on success.\<close>

record result =
  last_insert_id :: int
  rows_affected :: int

definition LastInsertId :: "result \<Rightarrow> error + int" where
  "LastInsertId res = Inr (last_insert_id res)"

definition RowsAffected :: "result \<Rightarrow> error + int" where
  "RowsAffected res = Inr (rows_affected res)"

text \<open>
  The data source name built by \<^verbatim>\<open>InitDB\<close> is \<^verbatim>\<open>user:pass@tcp(host:port)/name\<close>, without
  parameters, so the driver's \<^verbatim>\<open>clientFoundRows\<close> keeps its default: an UPDATE reports the
  rows it changed, not the rows its WHERE clause matched.
\<close>

definition clientFoundRows :: bool where
  "clientFoundRows = False"

text \<open>\<^verbatim>\<open>SELECT id, title, author, YEAR FROM books\<close>\<close>

definition select_books :: "db \<Rightarrow> error + row list" where
  "select_books d = Inr (books d)"

text \<open>\<^verbatim>\<open>SELECT id, title, author, YEAR FROM books WHERE id = ?\<close>, first row\<close>

definition select_book :: "db \<Rightarrow> int \<Rightarrow> error + row" where
  "select_book d n =
     (case find (\<lambda>r. row_id r = n) (books d) of
        None \<Rightarrow> Inl ErrNoRows
      | Some r \<Rightarrow> Inr r)"

text \<open>
  \<^verbatim>\<open>INSERT INTO books (title, author, year) VALUES (?, ?, ?)\<close>. The new row takes the
  counter's value as its id; the counter moves on but stays within the INT column, so
  that once the largest id is in use the insertion is a duplicate of the primary key.
\<close>

definition insert_book :: "db \<Rightarrow> string \<Rightarrow> string \<Rightarrow> int \<Rightarrow> error + result \<times> db" where
  "insert_book d t a y =
     (case store_values (strict d) t a y of
        Inl err \<Rightarrow> Inl err
      | Inr (t', a', y') \<Rightarrow>
          let n = auto_increment d in
          if n \<in> row_id ` set (books d) then Inl (MySQLError 1062)
          else Inr (\<lparr>last_insert_id = n, rows_affected = 1\<rparr>,
                    d\<lparr>books := books d @ [(n, t', a', y')],
                      auto_increment := min (n + 1) INT_MAX\<rparr>))"

text \<open>
  \<^verbatim>\<open>UPDATE books SET title = ?, author = ?, year = ? WHERE id = ?\<close>. The values are
  converted when they are stored into a matching row, so a statement that matches no row
  succeeds with no row affected.
\<close>

definition update_book :: "db \<Rightarrow> string \<Rightarrow> string \<Rightarrow> int \<Rightarrow> int \<Rightarrow> error + result \<times> db" where
  "update_book d t a y n =
     (if \<forall>r \<in> set (books d). row_id r \<noteq> n
      then Inr (\<lparr>last_insert_id = 0, rows_affected = 0\<rparr>, d)
      else
        (case store_values (strict d) t a y of
           Inl err \<Rightarrow> Inl err
         | Inr (t', a', y') \<Rightarrow>
             let matched = filter (\<lambda>r. row_id r = n) (books d);
                 changed = filter (\<lambda>r. r \<noteq> (n, t', a', y')) matched
             in Inr (\<lparr>last_insert_id = 0,
                       rows_affected = int (length (if clientFoundRows then matched else changed))\<rparr>,
                     d\<lparr>books := map (\<lambda>r. if row_id r = n then (n, t', a', y') else r) (books d)\<rparr>)))"

text \<open>\<^verbatim>\<open>DELETE FROM books WHERE id = ?\<close>\<close>

definition delete_book :: "db \<Rightarrow> int \<Rightarrow> error + result \<times> db" where
  "delete_book d n =
     Inr (\<lparr>last_insert_id = 0,
           rows_affected = int (length (filter (\<lambda>r. row_id r = n) (books d)))\<rparr>,
          d\<lparr>books := filter (\<lambda>r. row_id r \<noteq> n) (books d)\<rparr>)"

text \<open>
  \<^verbatim>\<open>Scan(&book.ID, &book.Title, &book.Author, &book.Year)\<close>: the columns are NOT NULL and an
  INT fits Go's \<^verbatim>\<open>int\<close>, so the conversion of a row of this table succeeds.
\<close>

definition book_of_row :: "row \<Rightarrow> Book" where
  "book_of_row r = (case r of (i, t, a, y) \<Rightarrow> \<lparr>ID = i, Title = t, Author = a, Year = y\<rparr>)"

definition Scan :: "row \<Rightarrow> error + Book" where
  "Scan r = Inr (book_of_row r)"

text \<open>\<^verbatim>\<open>rows.Err()\<close> after the iteration: the whole result set has arrived.\<close>

definition rows_Err :: "row list \<Rightarrow> error option" where
  "rows_Err rs = None"

section \<open>The handlers (controllers/book_controller.go)\<close>

text \<open>
  Each handler takes what it reads from the request and the store, and returns the
  response with the store afterwards. The path parameter is the string \<^verbatim>\<open>mux.Vars(r)["id"]\<close>;
  the body is given as the outcome of \<^verbatim>\<open>json.NewDecoder(r.Body).Decode(&book)\<close>.
  The handlers \<^verbatim>\<open>getBooks\<close>, \<^verbatim>\<open>getBook\<close>, \<^verbatim>\<open>createBook\<close>, \<^verbatim>\<open>updateBook\<close> and \<^verbatim>\<open>deleteBook\<close>
  of the older main.go are the same code on a global handle.
\<close>

text \<open>The loop \<^verbatim>\<open>for rows.Next() { ... books = append(books, book) }\<close> of \<^verbatim>\<open>GetBooks\<close>.\<close>

fun scan_rows :: "row list \<Rightarrow> Book list option \<Rightarrow> error + Book list option" where
  "scan_rows [] bs = Inr bs"
| "scan_rows (r # rs) bs =
     (case Scan r of
        Inl err \<Rightarrow> Inl err
      | Inr book \<Rightarrow> scan_rows rs (append_slice bs book))"

definition GetBooks :: "db \<Rightarrow> response \<times> db" where
  "GetBooks d =
     (case select_books d of
        Inl err \<Rightarrow> (http_Error (Textf ''Database query failed: '' err) 500, d)
      | Inr rows \<Rightarrow>
          (case scan_rows rows (Some []) of
             Inl err \<Rightarrow> (http_Error (Textf ''Failed to scan row: '' err) 500, d)
           | Inr bs \<Rightarrow>
               (case rows_Err rows of
                  Some err \<Rightarrow> (http_Error (Textf ''Error during row iteration: '' err) 500, d)
                | None \<Rightarrow> (\<lparr>status = 200, payload = Json (books_json bs)\<rparr>, d))))"

definition GetBook :: "string \<Rightarrow> db \<Rightarrow> response \<times> db" where
  "GetBook id_param d =
     (case Atoi id_param of
        Inl err \<Rightarrow> (http_Error (Text ''Invalid book ID'') 400, d)
      | Inr n \<Rightarrow>
          (case (case select_book d n of Inl err \<Rightarrow> Inl err | Inr r \<Rightarrow> Scan r) of
             Inl err \<Rightarrow>
               if err = ErrNoRows then (http_Error (Text ''Book not found'') 404, d)
               else (http_Error (Textf ''Database query failed: '' err) 500, d)
           | Inr book \<Rightarrow> (\<lparr>status = 200, payload = Json (book_json book)\<rparr>, d)))"

text \<open>
  The test \<^verbatim>\<open>book.Title == "" || book.Author == "" || book.Year == 0\<close> of \<^verbatim>\<open>CreateBook\<close>
  and \<^verbatim>\<open>UpdateBook\<close>.
\<close>

definition required_missing :: "Book \<Rightarrow> bool" where
  "required_missing book \<longleftrightarrow> Title book = [] \<or> Author book = [] \<or> Year book = 0"

definition CreateBook :: "error + Book \<Rightarrow> db \<Rightarrow> response \<times> db" where
  "CreateBook decoded d =
     (case decoded of
        Inl err \<Rightarrow> (http_Error (Textf ''Invalid request body: '' err) 400, d)
      | Inr book \<Rightarrow>
          if required_missing book
          then (http_Error (Text ''Invalid request body: Title, Author, and Year are required'') 400, d)
          else
            (case insert_book d (Title book) (Author book) (Year book) of
               Inl err \<Rightarrow> (http_Error (Textf ''Database insert failed: '' err) 500, d)
             | Inr (res, d') \<Rightarrow>
                 (case LastInsertId res of
                    Inl err \<Rightarrow> (http_Error (Textf ''Failed to get last insert ID: '' err) 500, d')
                  | Inr insertID \<Rightarrow>
                      (\<lparr>status = 201, payload = Json (book_json (book\<lparr>ID := insertID\<rparr>))\<rparr>, d'))))"

definition UpdateBook :: "string \<Rightarrow> error + Book \<Rightarrow> db \<Rightarrow> response \<times> db" where
  "UpdateBook id_param decoded d =
     (case Atoi id_param of
        Inl err \<Rightarrow> (http_Error (Text ''Invalid book ID'') 400, d)
      | Inr n \<Rightarrow>
          (case decoded of
             Inl err \<Rightarrow> (http_Error (Textf ''Invalid request body: '' err) 400, d)
           | Inr updatedBook \<Rightarrow>
               if required_missing updatedBook
               then (http_Error (Text ''Invalid request body: Title, Author, and Year are required'') 400, d)
               else
                 (case update_book d (Title updatedBook) (Author updatedBook) (Year updatedBook) n of
                    Inl err \<Rightarrow> (http_Error (Textf ''Database update failed: '' err) 500, d)
                  | Inr (res, d') \<Rightarrow>
                      (case RowsAffected res of
                         Inl err \<Rightarrow>
                           (http_Error (Textf ''Failed to get number of updated rows: '' err) 500, d')
                       | Inr rowsAffected \<Rightarrow>
                           if rowsAffected = 0 then (http_Error (Text ''Book not found'') 404, d')
                           else (\<lparr>status = 200,
                                  payload = Json (book_json (updatedBook\<lparr>ID := n\<rparr>))\<rparr>, d')))))"

definition DeleteBook :: "string \<Rightarrow> db \<Rightarrow> response \<times> db" where
  "DeleteBook id_param d =
     (case Atoi id_param of
        Inl err \<Rightarrow> (http_Error (Text ''Invalid book ID'') 400, d)
      | Inr n \<Rightarrow>
          (case delete_book d n of
             Inl err \<Rightarrow> (http_Error (Textf ''Database delete failed: '' err) 500, d)
           | Inr (res, d') \<Rightarrow>
               (case RowsAffected res of
                  Inl err \<Rightarrow>
                    (http_Error (Textf ''Failed to get number of deleted rows: '' err) 500, d')
                | Inr rowsAffected \<Rightarrow>
                    if rowsAffected = 0 then (http_Error (Text ''Book not found'') 404, d')
                    else (\<lparr>status = 200,
                           payload = Json (JObject [(''message'', JString ''Book deleted successfully'')])\<rparr>,
                          d'))))"

section \<open>The router (routes.SetupRoutes)\<close>

datatype request =
    GET_books
  | GET_book string
  | POST_books "error + Book"
  | PUT_book string "error + Book"
  | DELETE_book string

fun serve :: "request \<Rightarrow> db \<Rightarrow> response \<times> db" where
  "serve GET_books d = GetBooks d"
| "serve (GET_book i) d = GetBook i d"
| "serve (POST_books b) d = CreateBook b d"
| "serve (PUT_book i b) d = UpdateBook i b d"
| "serve (DELETE_book i) d = DeleteBook i d"

text \<open>The store after a sequence of requests, served one after the other.\<close>

fun serve_all :: "request list \<Rightarrow> db \<Rightarrow> db" where
  "serve_all [] d = d"
| "serve_all (rq # rqs) d = serve_all rqs (snd (serve rq d))"

section \<open>Predicates on requests and on the store\<close>

text \<open>The set of ids in use.\<close>

definition ids :: "db \<Rightarrow> int set" where
  "ids d = row_id ` set (books d)"

text \<open>
  A sequence of requests re-assigns the id \<open>n\<close> when one of its creates is answered 201
  for a row inserted under the id \<open>n\<close>, the value of the counter at that moment.
\<close>

definition assigns :: "int \<Rightarrow> request \<Rightarrow> db \<Rightarrow> bool" where
  "assigns n rq d =
     (case rq of
        POST_books body \<Rightarrow> status (fst (CreateBook body d)) = 201 \<and> auto_increment d = n
      | _ \<Rightarrow> False)"

fun reassigns :: "int \<Rightarrow> request list \<Rightarrow> db \<Rightarrow> bool" where
  "reassigns n [] d = False"
| "reassigns n (rq # rqs) d = (assigns n rq d \<or> reassigns n rqs (snd (serve rq d)))"

text \<open>The invariant of the data model: every row has a title, an author and a year.\<close>

definition valid_row :: "row \<Rightarrow> bool" where
  "valid_row r = (case r of (i, t, a, y) \<Rightarrow> t \<noteq> [] \<and> a \<noteq> [] \<and> y \<noteq> 0)"

definition valid_store :: "db \<Rightarrow> bool" where
  "valid_store d = list_all valid_row (books d)"

text \<open>A body whose values fit the columns \<^verbatim>\<open>VARCHAR(255)\<close>, \<^verbatim>\<open>VARCHAR(255)\<close> and \<^verbatim>\<open>INT\<close>.\<close>

definition fits_columns :: "Book \<Rightarrow> bool" where
  "fits_columns b \<longleftrightarrow>
     length (Title b) \<le> 255 \<and> length (Author b) \<le> 255 \<and> INT_MIN \<le> Year b \<and> Year b \<le> INT_MAX"

text \<open>\<^verbatim>\<open>PRIMARY KEY\<close>: no two rows share an id.\<close>

definition primary_key :: "db \<Rightarrow> bool" where
  "primary_key d = distinct (map row_id (books d))"

text \<open>
  The states the server keeps the table in: the primary key holds, the counter lies in
  \<open>1 .. INT_MAX\<close>, every id is positive and below the counter, or equal to it once the
  counter has reached \<open>INT_MAX\<close>.
\<close>

definition wf_store :: "db \<Rightarrow> bool" where
  "wf_store d \<longleftrightarrow>
     primary_key d \<and> 1 \<le> auto_increment d \<and> auto_increment d \<le> INT_MAX \<and>
     list_all (\<lambda>r. 1 \<le> row_id r \<and>
                 (row_id r < auto_increment d \<or> (row_id r = INT_MAX \<and> auto_increment d = INT_MAX)))
       (books d)"

text \<open>
  What it means for a path identifier to be numeric and in range, in the words of the
  specification: an optional sign followed by decimal digits, denoting an integer of 64 bits.
\<close>

definition is_digit :: "char \<Rightarrow> bool" where
  "is_digit c \<longleftrightarrow> 48 \<le> (of_char c :: int) \<and> (of_char c :: int) \<le> 57"

definition unsigned_part :: "string \<Rightarrow> string" where
  "unsigned_part s =
     (case s of [] \<Rightarrow> [] | c # cs \<Rightarrow> if c = CHR ''-'' \<or> c = CHR ''+'' then cs else s)"

definition numeric :: "string \<Rightarrow> bool" where
  "numeric s \<longleftrightarrow> unsigned_part s \<noteq> [] \<and> list_all is_digit (unsigned_part s)"

definition decimal :: "string \<Rightarrow> int" where
  "decimal ds = foldl (\<lambda>n c. n * 10 + (of_char c - 48)) 0 ds"

definition int_value :: "string \<Rightarrow> int" where
  "int_value s =
     (case s of [] \<Rightarrow> 0 | c # cs \<Rightarrow> if c = CHR ''-'' then - decimal cs else decimal (unsigned_part s))"

definition in_int64 :: "int \<Rightarrow> bool" where
  "in_int64 n \<longleftrightarrow> - (2 ^ 63) \<le> n \<and> n \<le> 2 ^ 63 - 1"

section \<open>Sample data\<close>

definition empty_store :: db where
  "empty_store = \<lparr>books = [], auto_increment = 1, strict = True\<rparr>"

definition dune :: Book where
  "dune = \<lparr>ID = 0, Title = ''Dune'', Author = ''Herbert'', Year = 1965\<rparr>"

definition shelf :: db where
  "shelf = \<lparr>books = [(1, ''Dune'', ''Herbert'', 1965), (2, ''Emma'', ''Austen'', 1815)],
            auto_increment = 3, strict = True\<rparr>"

definition lenient_store :: db where
  "lenient_store = \<lparr>books = [], auto_increment = 1, strict = False\<rparr>"

definition long_title :: Book where
  "long_title = \<lparr>ID = 0, Title = replicate 256 CHR ''a'', Author = ''Herbert'', Year = 1965\<rparr>"

definition full_store :: db where
  "full_store = \<lparr>books = [(2147483647, ''Emma'', ''Austen'', 1815)],
                 auto_increment = 2147483647, strict = True\<rparr>"

definition far_future :: Book where
  "far_future = \<lparr>ID = 0, Title = ''Dune'', Author = ''Herbert'', Year = 2147483648\<rparr>"

definition emma :: Book where
  "emma = \<lparr>ID = 0, Title = ''Emma'', Author = ''Austen'', Year = 1815\<rparr>"

definition untitled :: Book where
  "untitled = \<lparr>ID = 0, Title = [], Author = ''Herbert'', Year = 1965\<rparr>"

section \<open>The handlers, case by case\<close>

subsection \<open>GetBooks and GetBook\<close>

lemma scan_rows_Some:
  "scan_rows rs (Some acc) = Inr (Some (acc @ map book_of_row rs))"
  by (induction rs arbitrary: acc) (simp_all add: Scan_def append_slice_def)

lemma GetBooks_eq:
  "GetBooks d = (\<lparr>status = 200, payload = Json (JArray (map (\<lambda>r. book_json (book_of_row r)) (books d)))\<rparr>, d)"
  by (simp add: GetBooks_def select_books_def scan_rows_Some rows_Err_def books_json_def comp_def)

lemma find_row_None: "find (\<lambda>r. row_id r = n) rs = None \<longleftrightarrow> n \<notin> row_id ` set rs"
  by (auto simp: find_None_iff)


lemma find_row_append_new:
  "n \<notin> row_id ` set rs \<Longrightarrow> row_id r = n \<Longrightarrow> find (\<lambda>x. row_id x = n) (rs @ [r]) = Some r"
  by (induction rs) auto


lemma GetBook_absent:
  "Atoi s = Inr n \<Longrightarrow> n \<notin> ids d \<Longrightarrow> GetBook s d = (http_Error (Text ''Book not found'') 404, d)"
  by (simp add: GetBook_def select_book_def ids_def find_row_None [THEN iffD2])

lemma GetBook_found:
  "Atoi s = Inr n \<Longrightarrow> find (\<lambda>r. row_id r = n) (books d) = Some r \<Longrightarrow>
   GetBook s d = (\<lparr>status = 200, payload = Json (book_json (book_of_row r))\<rparr>, d)"
  by (simp add: GetBook_def select_book_def Scan_def)


lemma GetBook_store: "snd (GetBook s d) = d"
  by (simp add: GetBook_def select_book_def Scan_def split: sum.splits option.splits)

subsection \<open>Values stored into the columns\<close>

lemma store_values_fits:
  "fits_columns b \<Longrightarrow> store_values m (Title b) (Author b) (Year b) = Inr (Title b, Author b, Year b)"
  by (simp add: fits_columns_def store_values_def store_varchar_def store_int_def)

lemma store_varchar_nonempty: "store_varchar m s = Inr s' \<Longrightarrow> s \<noteq> [] \<Longrightarrow> s' \<noteq> []"
  by (auto simp: store_varchar_def split: if_splits)

lemma store_int_nonzero: "store_int m v = Inr v' \<Longrightarrow> v \<noteq> 0 \<Longrightarrow> v' \<noteq> 0"
  by (auto simp: store_int_def INT_MIN_def INT_MAX_def split: if_splits)

lemma store_values_valid:
  "store_values m t a y = Inr (t', a', y') \<Longrightarrow> t \<noteq> [] \<Longrightarrow> a \<noteq> [] \<Longrightarrow> y \<noteq> 0 \<Longrightarrow>
   valid_row (n, t', a', y')"
  by (auto simp: store_values_def valid_row_def split: sum.splits
           dest: store_varchar_nonempty store_int_nonzero)

subsection \<open>CreateBook\<close>

lemma CreateBook_decode_error:
  "CreateBook (Inl e) d = (http_Error (Textf ''Invalid request body: '' e) 400, d)"
  by (simp add: CreateBook_def)

lemma CreateBook_missing:
  "required_missing b \<Longrightarrow>
   CreateBook (Inr b) d =
     (http_Error (Text ''Invalid request body: Title, Author, and Year are required'') 400, d)"
  by (simp add: CreateBook_def)

lemma CreateBook_created:
  "\<not> required_missing b \<Longrightarrow> fits_columns b \<Longrightarrow> auto_increment d \<notin> ids d \<Longrightarrow>
   CreateBook (Inr b) d =
     (\<lparr>status = 201, payload = Json (book_json (b\<lparr>ID := auto_increment d\<rparr>))\<rparr>,
      d\<lparr>books := books d @ [(auto_increment d, Title b, Author b, Year b)],
        auto_increment := min (auto_increment d + 1) INT_MAX\<rparr>)"
  by (simp add: CreateBook_def insert_book_def store_values_fits ids_def LastInsertId_def Let_def)

lemma CreateBook_valid_store:
  "valid_store d \<Longrightarrow> valid_store (snd (CreateBook body d))"
  by (auto simp: CreateBook_def insert_book_def LastInsertId_def valid_store_def required_missing_def
                 Let_def
           split: sum.splits prod.splits if_splits
           intro: store_values_valid)

subsection \<open>UpdateBook\<close>

lemma UpdateBook_bad_id:
  "Atoi s = Inl e \<Longrightarrow> UpdateBook s body d = (http_Error (Text ''Invalid book ID'') 400, d)"
  by (simp add: UpdateBook_def)

lemma UpdateBook_decode_error:
  "Atoi s = Inr n \<Longrightarrow>
   UpdateBook s (Inl e) d = (http_Error (Textf ''Invalid request body: '' e) 400, d)"
  by (simp add: UpdateBook_def)

lemma UpdateBook_missing:
  "required_missing b \<Longrightarrow> snd (UpdateBook s (Inr b) d) = d \<and> status (fst (UpdateBook s (Inr b) d)) = 400"
  by (simp add: UpdateBook_def http_Error_def split: sum.splits)

lemma UpdateBook_absent:
  "Atoi s = Inr n \<Longrightarrow> n \<notin> ids d \<Longrightarrow> \<not> required_missing b \<Longrightarrow>
   UpdateBook s (Inr b) d = (http_Error (Text ''Book not found'') 404, d)"
  by (auto simp: UpdateBook_def update_book_def ids_def RowsAffected_def)

lemma UpdateBook_changed:
  assumes "Atoi s = Inr n" "\<not> required_missing b" "fits_columns b"
    and "r \<in> set (books d)" "row_id r = n" "r \<noteq> (n, Title b, Author b, Year b)"
  shows "UpdateBook s (Inr b) d =
     (\<lparr>status = 200, payload = Json (book_json (b\<lparr>ID := n\<rparr>))\<rparr>,
      d\<lparr>books := map (\<lambda>x. if row_id x = n then (n, Title b, Author b, Year b) else x) (books d)\<rparr>)"
proof -
  have "filter (\<lambda>x. x \<noteq> (n, Title b, Author b, Year b)) (filter (\<lambda>x. row_id x = n) (books d)) \<noteq> []"
    using assms(4-6) by (auto simp: filter_empty_conv)
  with assms show ?thesis
    by (auto simp: UpdateBook_def update_book_def store_values_fits RowsAffected_def
                   clientFoundRows_def Let_def)
qed

lemma UpdateBook_unchanged_row:
  assumes "Atoi s = Inr n" "\<not> required_missing b" "fits_columns b"
    and "ids d \<inter> {n} \<noteq> {}" "\<forall>r \<in> set (books d). row_id r = n \<longrightarrow> r = (n, Title b, Author b, Year b)"
  shows "UpdateBook s (Inr b) d = (http_Error (Text ''Book not found'') 404, d)"
proof -
  have 1: "filter (\<lambda>x. x \<noteq> (n, Title b, Author b, Year b)) (filter (\<lambda>x. row_id x = n) (books d)) = []"
    using assms(5) by (auto simp: filter_empty_conv)
  have 2: "map (\<lambda>x. if row_id x = n then (n, Title b, Author b, Year b) else x) (books d) = books d"
    using assms(5) by (induction "books d") (auto simp: map_idI)
  from assms 1 2 show ?thesis
    by (auto simp: UpdateBook_def update_book_def store_values_fits RowsAffected_def
                   clientFoundRows_def Let_def ids_def)
qed

lemma filter_others_update:
  "filter (\<lambda>r. row_id r \<noteq> n) (map (\<lambda>r. if row_id r = n then (n, v) else r) rs) =
   filter (\<lambda>r. row_id r \<noteq> n) rs"
  by (induction rs) (simp_all add: row_id_def)

lemma UpdateBook_frame:
  "Atoi s = Inr n \<Longrightarrow>
   filter (\<lambda>r. row_id r \<noteq> n) (books (snd (UpdateBook s body d))) = filter (\<lambda>r. row_id r \<noteq> n) (books d)"
  by (simp add: UpdateBook_def update_book_def RowsAffected_def Let_def filter_others_update
           split: sum.splits prod.splits)

lemma UpdateBook_valid_store:
  "valid_store d \<Longrightarrow> valid_store (snd (UpdateBook s body d))"
  by (auto simp: UpdateBook_def update_book_def RowsAffected_def valid_store_def required_missing_def
                 Let_def list_all_iff
           split: sum.splits prod.splits if_splits
           intro: store_values_valid)

lemma UpdateBook_ignores_body_id: "UpdateBook s (Inr (b\<lparr>ID := k\<rparr>)) d = UpdateBook s (Inr b) d"
  by (simp add: UpdateBook_def required_missing_def split: sum.splits prod.splits)

subsection \<open>DeleteBook\<close>

lemma DeleteBook_bad_id:
  "Atoi s = Inl e \<Longrightarrow> DeleteBook s d = (http_Error (Text ''Invalid book ID'') 400, d)"
  by (simp add: DeleteBook_def)

lemma filter_absent: "n \<notin> row_id ` set rs \<Longrightarrow> filter (\<lambda>r. row_id r \<noteq> n) rs = rs"
  by (induction rs) auto

lemma DeleteBook_absent:
  "Atoi s = Inr n \<Longrightarrow> n \<notin> ids d \<Longrightarrow> DeleteBook s d = (http_Error (Text ''Book not found'') 404, d)"
  by (auto simp: DeleteBook_def delete_book_def RowsAffected_def ids_def filter_absent
                 filter_empty_conv)

lemma DeleteBook_present:
  "Atoi s = Inr n \<Longrightarrow> n \<in> ids d \<Longrightarrow>
   DeleteBook s d =
     (\<lparr>status = 200, payload = Json (JObject [(''message'', JString ''Book deleted successfully'')])\<rparr>,
      d\<lparr>books := filter (\<lambda>r. row_id r \<noteq> n) (books d)\<rparr>)"
  by (auto simp: DeleteBook_def delete_book_def RowsAffected_def ids_def filter_empty_conv)

lemma DeleteBook_frame:
  "Atoi s = Inr n \<Longrightarrow>
   filter (\<lambda>r. row_id r \<noteq> n) (books (snd (DeleteBook s d))) = filter (\<lambda>r. row_id r \<noteq> n) (books d)"
  by (auto simp: DeleteBook_def delete_book_def RowsAffected_def)

lemma DeleteBook_valid_store:
  "valid_store d \<Longrightarrow> valid_store (snd (DeleteBook s d))"
  by (auto simp: DeleteBook_def delete_book_def RowsAffected_def valid_store_def list_all_iff
           split: sum.splits)

subsection \<open>The server keeps the store well formed\<close>

lemma wf_store_empty: "wf_store empty_store"
  by (simp add: wf_store_def empty_store_def primary_key_def INT_MAX_def)

lemma wf_store_ids:
  "wf_store d \<longleftrightarrow>
     primary_key d \<and> 1 \<le> auto_increment d \<and> auto_increment d \<le> INT_MAX \<and>
     (\<forall>i \<in> ids d. 1 \<le> i \<and> (i < auto_increment d \<or> (i = INT_MAX \<and> auto_increment d = INT_MAX)))"
  by (simp add: wf_store_def ids_def list_all_iff)

lemma wf_store_primary_key: "wf_store d \<Longrightarrow> primary_key d"
  by (simp add: wf_store_def)

lemma wf_store_fresh:
  "wf_store d \<Longrightarrow> auto_increment d < INT_MAX \<Longrightarrow> auto_increment d \<notin> ids d"
  unfolding wf_store_ids by force

lemma wf_store_exhausted:
  "wf_store d \<Longrightarrow> auto_increment d \<in> ids d \<longleftrightarrow> INT_MAX \<in> ids d"
  unfolding wf_store_ids by force

lemma wf_store_positive: "wf_store d \<Longrightarrow> n \<le> 0 \<Longrightarrow> n \<notin> ids d"
  unfolding wf_store_ids by force

lemma insert_book_wf:
  assumes "wf_store d" and "insert_book d t a y = Inr (res, d')"
  shows "wf_store d'"
proof -
  let ?c = "auto_increment d"
  from assms(2) obtain v where fresh: "?c \<notin> ids d"
    and d': "d' = d\<lparr>books := books d @ [(?c, v)], auto_increment := min (?c + 1) INT_MAX\<rparr>"
    by (auto simp: insert_book_def Let_def ids_def split: sum.splits prod.splits if_splits)
  have ids': "ids d' = insert ?c (ids d)"
    by (simp add: d' ids_def row_id_def)
  have pk: "primary_key d'"
    using assms(1) fresh by (simp add: wf_store_ids primary_key_def d' ids_def row_id_def)
  have below: "\<forall>i \<in> ids d. 1 \<le> i \<and> i < ?c"
    using assms(1) fresh unfolding wf_store_ids by force
  have c: "1 \<le> ?c" "?c \<le> INT_MAX"
    using assms(1) by (simp_all add: wf_store_ids)
  have ctr: "auto_increment d' = min (?c + 1) INT_MAX"
    by (simp add: d')
  show ?thesis
    unfolding wf_store_ids ids' ctr using pk below c by (auto simp: min_def)
qed

lemma map_row_id_update:
  "map row_id (map (\<lambda>r. if row_id r = n then (n, v) else r) rs) = map row_id rs"
  by (induction rs) (simp_all add: row_id_def)

lemma update_book_wf:
  assumes "wf_store d" and "update_book d t a y n = Inr (res, d')"
  shows "wf_store d'"
proof -
  from assms(2) have "d' = d \<or> (\<exists>v. d' = d\<lparr>books := map (\<lambda>r. if row_id r = n then (n, v) else r) (books d)\<rparr>)"
    by (auto simp: update_book_def Let_def split: sum.splits prod.splits if_splits)
  then show ?thesis
  proof
    assume "d' = d"
    with assms(1) show ?thesis by simp
  next
    assume "\<exists>v. d' = d\<lparr>books := map (\<lambda>r. if row_id r = n then (n, v) else r) (books d)\<rparr>"
    then obtain v where d': "d' = d\<lparr>books := map (\<lambda>r. if row_id r = n then (n, v) else r) (books d)\<rparr>"
      by blast
    have b: "books d' = map (\<lambda>r. if row_id r = n then (n, v) else r) (books d)"
      by (simp add: d')
    have m: "map row_id (books d') = map row_id (books d)"
      unfolding b by (rule map_row_id_update)
    have "set (map row_id (books d')) = set (map row_id (books d))"
      by (simp only: m)
    then have "ids d' = ids d"
      by (simp add: ids_def)
    moreover have "primary_key d' = primary_key d"
      by (simp only: primary_key_def m)
    moreover have "auto_increment d' = auto_increment d"
      by (simp add: d')
    ultimately show ?thesis
      using assms(1) by (simp add: wf_store_ids)
  qed
qed

lemma delete_book_wf:
  assumes "wf_store d" and "delete_book d n = Inr (res, d')"
  shows "wf_store d'"
proof -
  from assms(2) have d': "d' = d\<lparr>books := filter (\<lambda>r. row_id r \<noteq> n) (books d)\<rparr>"
    by (auto simp: delete_book_def)
  have "ids d' \<subseteq> ids d"
    by (auto simp: d' ids_def)
  moreover have "primary_key d'"
    using assms(1) by (simp add: wf_store_ids primary_key_def d' distinct_map_filter)
  moreover have "auto_increment d' = auto_increment d"
    by (simp add: d')
  ultimately show ?thesis
    using assms(1) unfolding wf_store_ids by auto
qed

lemma CreateBook_wf: "wf_store d \<Longrightarrow> wf_store (snd (CreateBook body d))"
  by (auto simp: CreateBook_def LastInsertId_def split: sum.splits prod.splits dest: insert_book_wf)

lemma UpdateBook_wf: "wf_store d \<Longrightarrow> wf_store (snd (UpdateBook s body d))"
  by (auto simp: UpdateBook_def RowsAffected_def split: sum.splits prod.splits dest: update_book_wf)

lemma DeleteBook_wf: "wf_store d \<Longrightarrow> wf_store (snd (DeleteBook s d))"
  by (auto simp: DeleteBook_def RowsAffected_def split: sum.splits prod.splits dest: delete_book_wf)

lemma serve_wf: "wf_store d \<Longrightarrow> wf_store (snd (serve rq d))"
  by (cases rq) (simp_all add: GetBooks_eq GetBook_store CreateBook_wf UpdateBook_wf DeleteBook_wf)

lemma serve_all_wf: "wf_store d \<Longrightarrow> wf_store (serve_all rqs d)"
  by (induction rqs arbitrary: d) (simp_all add: serve_wf)

lemma serve_valid_store: "valid_store d \<Longrightarrow> valid_store (snd (serve rq d))"
  by (cases rq)
     (simp_all add: GetBooks_eq GetBook_store CreateBook_valid_store UpdateBook_valid_store
                    DeleteBook_valid_store)

lemma serve_all_valid_store: "valid_store d \<Longrightarrow> valid_store (serve_all rqs d)"
  by (induction rqs arbitrary: d) (simp_all add: serve_valid_store)

subsection \<open>Atoi accepts the numeric strings in range\<close>

lemma digit_is_digit: "digit c = (if is_digit c then Some (of_char c - 48) else None)"
  by (simp add: digit_def is_digit_def Let_def)

lemma foldl_digits_mono:
  "list_all is_digit ds \<Longrightarrow> 0 \<le> n \<Longrightarrow>
   n \<le> foldl (\<lambda>n c. n * 10 + (of_char c - 48)) (n :: int) ds"
proof (induction ds arbitrary: n)
  case Nil
  then show ?case by simp
next
  case (Cons c cs)
  let ?m = "n * 10 + (of_char c - 48)"
  from Cons.prems have d: "0 \<le> (of_char c :: int) - 48"
    by (simp add: is_digit_def)
  with Cons.prems have m: "n \<le> ?m" "0 \<le> ?m"
    by simp_all
  from Cons.prems have "list_all is_digit cs"
    by simp
  from Cons.IH [OF this m(2)] m(1) show ?case
    by simp
qed

lemma ParseUint_Inr:
  "0 \<le> n \<Longrightarrow>
   ParseUint ds n = Inr v \<longleftrightarrow>
     list_all is_digit ds \<and> v = foldl (\<lambda>n c. n * 10 + (of_char c - 48)) n ds \<and>
     (ds = [] \<or> v \<le> 2 ^ 64 - 1)"
proof (induction ds arbitrary: n)
  case Nil
  then show ?case by auto
next
  case (Cons c cs)
  let ?m = "n * 10 + (of_char c - 48)"
  show ?case
  proof (cases "is_digit c")
    case False
    then show ?thesis by (simp add: digit_is_digit)
  next
    case True
    then have m: "0 \<le> ?m"
      using Cons.prems by (simp add: is_digit_def)
    show ?thesis
    proof (cases "2 ^ 64 - 1 < ?m")
      case over: True
      have "\<not> foldl (\<lambda>n c. n * 10 + (of_char c - 48)) ?m cs \<le> 2 ^ 64 - 1" if "list_all is_digit cs"
        using foldl_digits_mono [OF that m] over by linarith
      with True over show ?thesis
        by (auto simp: digit_is_digit)
    next
      case fits: False
      have "cs = [] \<longrightarrow> ?m \<le> 2 ^ 64 - 1"
        using fits by simp
      with True fits Cons.IH [OF m] show ?thesis
        by (auto simp: digit_is_digit)
    qed
  qed
qed

lemma ParseUint_decimal:
  "ParseUint ds 0 = Inr v \<longleftrightarrow>
     list_all is_digit ds \<and> v = decimal ds \<and> (ds = [] \<or> v \<le> 2 ^ 64 - 1)"
  using ParseUint_Inr [of 0 ds v] by (simp add: decimal_def)

lemma decimal_nonneg: "list_all is_digit ds \<Longrightarrow> 0 \<le> decimal ds"
  using foldl_digits_mono [of ds 0] by (simp add: decimal_def)

lemma Atoi_unsigned_part:
  "Atoi s =
     (if unsigned_part s = [] then Inl ErrSyntax
      else
        (case ParseUint (unsigned_part s) 0 of
           Inl err \<Rightarrow> Inl err
         | Inr un \<Rightarrow>
             if take 1 s = ''-'' then (if 2 ^ 63 < un then Inl ErrRange else Inr (- un))
             else (if 2 ^ 63 \<le> un then Inl ErrRange else Inr un)))"
  by (cases s) (auto simp: Atoi_def unsigned_part_def Let_def split: sum.splits)

lemma int_value_unsigned_part:
  "int_value s = (if take 1 s = ''-'' then - decimal (unsigned_part s) else decimal (unsigned_part s))"
  by (cases s) (simp_all add: int_value_def unsigned_part_def decimal_def)

lemma Atoi_Inr:
  "Atoi s = Inr n \<longleftrightarrow> numeric s \<and> in_int64 (int_value s) \<and> n = int_value s"
proof (cases "unsigned_part s = [] \<or> \<not> list_all is_digit (unsigned_part s)")
  case True
  then have "\<not> numeric s"
    by (auto simp: numeric_def)
  moreover from True have "\<And>v. ParseUint (unsigned_part s) 0 \<noteq> Inr v \<or> unsigned_part s = []"
    by (auto simp: ParseUint_decimal)
  then have "Atoi s \<noteq> Inr n"
    by (auto simp: Atoi_unsigned_part split: sum.splits)
  ultimately show ?thesis
    by simp
next
  case False
  let ?ds = "unsigned_part s"
  let ?v = "decimal ?ds"
  from False have num: "numeric s" and dig: "list_all is_digit ?ds" and ne: "?ds \<noteq> []"
    by (auto simp: numeric_def)
  have nonneg: "0 \<le> ?v"
    using dig by (rule decimal_nonneg)
  show ?thesis
  proof (cases "?v \<le> 2 ^ 64 - 1")
    case True
    with dig have "ParseUint ?ds 0 = Inr ?v"
      by (simp add: ParseUint_decimal)
    with ne num nonneg show ?thesis
      by (auto simp: Atoi_unsigned_part int_value_unsigned_part in_int64_def)
  next
    case False
    with dig ne have "\<And>v. ParseUint ?ds 0 \<noteq> Inr v"
      by (auto simp: ParseUint_decimal)
    then have "Atoi s \<noteq> Inr n"
      by (auto simp: Atoi_unsigned_part split: sum.splits)
    moreover from False nonneg have "\<not> in_int64 (int_value s)"
      by (auto simp: int_value_unsigned_part in_int64_def)
    ultimately show ?thesis
      by simp
  qed
qed

lemma Atoi_accepts: "numeric s \<Longrightarrow> in_int64 (int_value s) \<Longrightarrow> Atoi s = Inr (int_value s)"
  by (simp add: Atoi_Inr)

lemma Atoi_rejects: "isl (Atoi s) \<longleftrightarrow> \<not> numeric s \<or> \<not> in_int64 (int_value s)"
proof (cases "Atoi s")
  case (Inl e)
  then have "Atoi s \<noteq> Inr (int_value s)"
    by simp
  then have "\<not> (numeric s \<and> in_int64 (int_value s))"
    by (simp add: Atoi_Inr)
  with Inl show ?thesis
    by auto
next
  case (Inr n)
  then show ?thesis
    by (simp add: Atoi_Inr [THEN iffD1])
qed

subsection \<open>An id that is absent stays absent until a create assigns it\<close>

lemma CreateBook_ids:
  "ids (snd (CreateBook body d)) =
     (if status (fst (CreateBook body d)) = 201 then insert (auto_increment d) (ids d) else ids d)"
  by (auto simp: CreateBook_def insert_book_def LastInsertId_def http_Error_def ids_def row_id_def
                 Let_def
           split: sum.splits prod.splits)

lemma UpdateBook_ids: "ids (snd (UpdateBook s body d)) = ids d"
proof -
  have "set (map row_id (map (\<lambda>r. if row_id r = n then (n, v) else r) rs)) = set (map row_id rs)"
    for n v and rs :: "row list"
    by (simp only: map_row_id_update)
  then have "row_id ` set (map (\<lambda>r. if row_id r = n then (n, v) else r) rs) = row_id ` set rs"
    for n v and rs :: "row list"
    by (simp only: set_map)
  then show ?thesis
    by (simp add: UpdateBook_def update_book_def RowsAffected_def http_Error_def ids_def Let_def
             split: sum.splits prod.splits)
qed

lemma DeleteBook_ids: "ids (snd (DeleteBook s d)) \<subseteq> ids d"
  by (auto simp: DeleteBook_def delete_book_def RowsAffected_def ids_def split: sum.splits)

lemma serve_keeps_absent:
  "n \<notin> ids d \<Longrightarrow> \<not> assigns n rq d \<Longrightarrow> n \<notin> ids (snd (serve rq d))"
proof (cases rq)
  case GET_books
  then show "n \<notin> ids d \<Longrightarrow> n \<notin> ids (snd (serve rq d))"
    by (simp add: GetBooks_eq)
next
  case (GET_book i)
  then show "n \<notin> ids d \<Longrightarrow> n \<notin> ids (snd (serve rq d))"
    by (simp add: GetBook_store)
next
  case (POST_books body)
  then show "n \<notin> ids d \<Longrightarrow> \<not> assigns n rq d \<Longrightarrow> n \<notin> ids (snd (serve rq d))"
    by (auto simp: assigns_def CreateBook_ids split: if_splits)
next
  case (PUT_book i body)
  then show "n \<notin> ids d \<Longrightarrow> n \<notin> ids (snd (serve rq d))"
    by (simp add: UpdateBook_ids)
next
  case (DELETE_book i)
  then show "n \<notin> ids d \<Longrightarrow> n \<notin> ids (snd (serve rq d))"
    using DeleteBook_ids [of i d] by auto
qed

lemma serve_all_keeps_absent:
  "n \<notin> ids d \<Longrightarrow> \<not> reassigns n rqs d \<Longrightarrow> n \<notin> ids (serve_all rqs d)"
  by (induction rqs arbitrary: d) (simp_all add: serve_keeps_absent)

text \<open>
  In a well-formed store the counter never goes back, so an id below it is never assigned
  again: only the largest id, 2147483647, can be re-assigned after its row is deleted.
\<close>

lemma serve_counter_mono:
  "auto_increment d \<le> INT_MAX \<Longrightarrow> auto_increment d \<le> auto_increment (snd (serve rq d))"
proof (cases rq)
  case GET_books
  then show ?thesis by (simp add: GetBooks_eq)
next
  case (GET_book i)
  then show ?thesis by (simp add: GetBook_store)
next
  case (POST_books body)
  assume "auto_increment d \<le> INT_MAX"
  with POST_books show ?thesis
    by (auto simp: CreateBook_def insert_book_def LastInsertId_def Let_def
             split: sum.splits prod.splits if_splits)
next
  case (PUT_book i body)
  then show ?thesis
    by (auto simp: UpdateBook_def update_book_def RowsAffected_def Let_def
             split: sum.splits prod.splits if_splits)
next
  case (DELETE_book i)
  then show ?thesis
    by (auto simp: DeleteBook_def delete_book_def RowsAffected_def split: sum.splits)
qed

lemma wf_store_never_reassigns:
  "wf_store d \<Longrightarrow> n < auto_increment d \<Longrightarrow> \<not> reassigns n rqs d"
proof (induction rqs arbitrary: d)
  case Nil
  then show ?case by simp
next
  case (Cons rq rqs)
  from Cons.prems(1) have le: "auto_increment d \<le> INT_MAX"
    by (simp add: wf_store_def)
  have "\<not> assigns n rq d"
    using Cons.prems(2) by (auto simp: assigns_def split: request.splits)
  moreover have "wf_store (snd (serve rq d))"
    using Cons.prems(1) by (rule serve_wf)
  moreover have "n < auto_increment (snd (serve rq d))"
    using serve_counter_mono [OF le, of rq] Cons.prems(2) by linarith
  ultimately show ?case
    using Cons.IH by simp
qed

lemma DeleteBook_removes:
  assumes "Atoi s = Inr n"
  shows "n \<notin> ids (snd (DeleteBook s d))"
  using assms by (auto simp: DeleteBook_def delete_book_def RowsAffected_def ids_def)

section \<open>The claims\<close>

text \<open>
  C1 fails as stated. A body with a title of 256 characters passes the validation of
  \<^verbatim>\<open>CreateBook\<close>, yet a strict server rejects the INSERT and the answer is 500; a server
  that is not strict stores the first 255 characters, so that the get-by-id that follows
  returns another title than the one submitted. A body with the year 2147483648 passes the
  validation too, and a strict server rejects it. And once id 2147483647 is in use, a
  create with a body that fits is answered 500.
\<close>

theorem create_valid_body_counterexample:
  "\<not> (Title long_title = [] \<or> Author long_title = [] \<or> Year long_title = 0) \<and>
   status (fst (CreateBook (Inr long_title) empty_store)) = 500 \<and>
   status (fst (CreateBook (Inr long_title) lenient_store)) = 201 \<and>
   Atoi ''1'' = Inr 1 \<and>
   payload (fst (CreateBook (Inr long_title) lenient_store)) = Json (book_json (long_title\<lparr>ID := 1\<rparr>)) \<and>
   payload (fst (GetBook ''1'' (snd (CreateBook (Inr long_title) lenient_store)))) =
     Json (book_json (long_title\<lparr>ID := 1, Title := replicate 255 CHR ''a''\<rparr>)) \<and>
   replicate 255 CHR ''a'' \<noteq> Title long_title \<and>
   \<not> (Title far_future = [] \<or> Author far_future = [] \<or> Year far_future = 0) \<and>
   status (fst (CreateBook (Inr far_future) empty_store)) = 500 \<and>
   \<not> (Title dune = [] \<or> Author dune = [] \<or> Year dune = 0) \<and>
   status (fst (CreateBook (Inr dune) full_store)) = 500"
proof -
  have 1: "Atoi ''1'' = Inr 1"
    by (simp add: Atoi_def digit_def)
  have 2: "\<not> required_missing long_title" "\<not> required_missing dune" "\<not> required_missing far_future"
    by (simp_all add: required_missing_def long_title_def dune_def far_future_def)
  have 3: "store_values True (Title long_title) (Author long_title) (Year long_title) = Inl (MySQLError 1406)"
    by (simp add: store_values_def store_varchar_def long_title_def)
  have 11: "store_values True (Title far_future) (Author far_future) (Year far_future) = Inl (MySQLError 1264)"
    by (simp add: store_values_def store_varchar_def store_int_def far_future_def INT_MIN_def INT_MAX_def)
  have 12: "CreateBook (Inr far_future) empty_store =
             (http_Error (Textf ''Database insert failed: '' (MySQLError 1264)) 500, empty_store)"
    using 2 11 by (simp add: CreateBook_def insert_book_def empty_store_def)
  have 4: "store_values False (Title long_title) (Author long_title) (Year long_title) =
             Inr (replicate 255 CHR ''a'', ''Herbert'', 1965)"
    by (simp add: store_values_def store_varchar_def store_int_def long_title_def INT_MIN_def INT_MAX_def)
  have 5: "CreateBook (Inr long_title) empty_store =
             (http_Error (Textf ''Database insert failed: '' (MySQLError 1406)) 500, empty_store)"
    using 2 3 by (simp add: CreateBook_def insert_book_def empty_store_def)
  have 6: "CreateBook (Inr long_title) lenient_store =
             (\<lparr>status = 201, payload = Json (book_json (long_title\<lparr>ID := 1\<rparr>))\<rparr>,
              \<lparr>books = [(1, replicate 255 CHR ''a'', ''Herbert'', 1965)], auto_increment = 2, strict = False\<rparr>)"
    using 2 4 by (simp add: CreateBook_def insert_book_def lenient_store_def LastInsertId_def INT_MAX_def)
  have 7: "GetBook ''1'' \<lparr>books = [(1, replicate 255 CHR ''a'', ''Herbert'', 1965)], auto_increment = 2, strict = False\<rparr>
           = (\<lparr>status = 200, payload = Json (book_json (long_title\<lparr>ID := 1, Title := replicate 255 CHR ''a''\<rparr>))\<rparr>,
              \<lparr>books = [(1, replicate 255 CHR ''a'', ''Herbert'', 1965)], auto_increment = 2, strict = False\<rparr>)"
    using 1 by (simp add: GetBook_def select_book_def row_id_def Scan_def book_of_row_def long_title_def)
  have 8: "replicate 255 CHR ''a'' \<noteq> Title long_title"
  proof
    assume "replicate 255 CHR ''a'' = Title long_title"
    then have "length (replicate 255 CHR ''a'') = length (Title long_title)"
      by (rule arg_cong)
    then show False
      by (simp add: long_title_def)
  qed
  have 9: "fits_columns dune"
    by (simp add: fits_columns_def dune_def INT_MIN_def INT_MAX_def)
  have 10: "CreateBook (Inr dune) full_store =
             (http_Error (Textf ''Database insert failed: '' (MySQLError 1062)) 500, full_store)"
    using 2 by (simp add: CreateBook_def insert_book_def store_values_fits [OF 9] full_store_def row_id_def)
  from 1 2 5 6 7 8 10 12 show ?thesis
    by (simp add: required_missing_def http_Error_def)
qed

text \<open>
  C1, as amended. Take a create request whose body passes validation and fits the columns
  (title and author of at most 255 characters, year a signed 32-bit integer), on a store
  whose AUTO_INCREMENT counter names an id that is not in use. The create operation
  answers 201 with the body's record under the id the store assigned, the counter's value;
  a get-by-id with that id, straight afterwards, answers 200 with the same record: the
  title, author and year that were submitted.
\<close>

theorem create_then_get:
  assumes "\<not> (Title b = [] \<or> Author b = [] \<or> Year b = 0)" and "fits_columns b"
    and "auto_increment d \<notin> ids d" and "Atoi s = Inr (auto_increment d)"
  shows "fst (CreateBook (Inr b) d) =
           \<lparr>status = 201, payload = Json (book_json (b\<lparr>ID := auto_increment d\<rparr>))\<rparr> \<and>
         fst (GetBook s (snd (CreateBook (Inr b) d))) =
           \<lparr>status = 200, payload = Json (book_json (b\<lparr>ID := auto_increment d\<rparr>))\<rparr>"
proof -
  let ?n = "auto_increment d"
  let ?r = "(?n, Title b, Author b, Year b)"
  from assms(1) have v: "\<not> required_missing b"
    by (simp add: required_missing_def)
  have c: "CreateBook (Inr b) d =
     (\<lparr>status = 201, payload = Json (book_json (b\<lparr>ID := ?n\<rparr>))\<rparr>,
      d\<lparr>books := books d @ [?r], auto_increment := min (?n + 1) INT_MAX\<rparr>)"
    using v assms(2,3) by (rule CreateBook_created)
  have "find (\<lambda>x. row_id x = ?n) (books d @ [?r]) = Some ?r"
    using assms(3) by (intro find_row_append_new) (simp_all add: ids_def row_id_def)
  then have "GetBook s (snd (CreateBook (Inr b) d)) =
     (\<lparr>status = 200, payload = Json (book_json (book_of_row ?r))\<rparr>, snd (CreateBook (Inr b) d))"
    using assms(4) by (intro GetBook_found) (simp_all add: c)
  moreover have "book_of_row ?r = b\<lparr>ID := ?n\<rparr>"
    by (simp add: book_of_row_def)
  ultimately show ?thesis
    by (simp add: c)
qed

theorem create_then_get_witness:
  "\<not> (Title dune = [] \<or> Author dune = [] \<or> Year dune = 0) \<and> fits_columns dune \<and>
   auto_increment shelf \<notin> ids shelf \<and> Atoi ''3'' = Inr (auto_increment shelf) \<and>
   fst (CreateBook (Inr dune) shelf) =
     \<lparr>status = 201, payload = Json (book_json (dune\<lparr>ID := 3\<rparr>))\<rparr> \<and>
   fst (GetBook ''3'' (snd (CreateBook (Inr dune) shelf))) =
     \<lparr>status = 200, payload = Json (book_json (dune\<lparr>ID := 3\<rparr>))\<rparr>"
proof -
  have 1: "\<not> (Title dune = [] \<or> Author dune = [] \<or> Year dune = 0)"
    by (simp add: dune_def)
  have 2: "fits_columns dune"
    by (simp add: fits_columns_def dune_def INT_MIN_def INT_MAX_def)
  have 3: "auto_increment shelf \<notin> ids shelf"
    by (simp add: ids_def shelf_def row_id_def)
  have 4: "auto_increment shelf = 3"
    by (simp add: shelf_def)
  have 5: "Atoi ''3'' = Inr (auto_increment shelf)"
    by (simp add: Atoi_def digit_def 4)
  from create_then_get [OF 1 2 3 5] 1 2 3 5 show ?thesis
    by (simp add: 4)
qed

text \<open>
  C2. The rows of a store are valid when each has a non-empty title, a non-empty author
  and a year other than zero. Each of the five operations takes a valid store to a valid
  store, whatever the request, and so does every sequence of requests: starting from the
  empty table, every row that creates and updates have written is valid.
\<close>

theorem valid_store_preserved:
  assumes "valid_store d"
  shows "valid_store (snd (GetBooks d)) \<and> valid_store (snd (GetBook s d)) \<and>
         valid_store (snd (CreateBook body d)) \<and> valid_store (snd (UpdateBook s body d)) \<and>
         valid_store (snd (DeleteBook s d)) \<and> valid_store (serve_all rqs d) \<and>
         (books d0 = [] \<longrightarrow> valid_store (serve_all rqs d0))"
proof -
  have "valid_store d0" if "books d0 = []"
    using that by (simp add: valid_store_def)
  with assms show ?thesis
    by (simp add: GetBooks_eq GetBook_store CreateBook_valid_store UpdateBook_valid_store
                  DeleteBook_valid_store serve_all_valid_store)
qed

theorem valid_store_preserved_witness:
  "valid_store empty_store \<and> books empty_store = [] \<and>
   valid_store (snd (CreateBook (Inr dune) empty_store)) \<and>
   valid_store (serve_all [POST_books (Inr dune), POST_books (Inr untitled),
                           PUT_book ''1'' (Inr long_title), GET_books, DELETE_book ''2''] empty_store) \<and>
   books (serve_all [POST_books (Inr dune), POST_books (Inr untitled),
                     PUT_book ''1'' (Inr long_title), GET_books, DELETE_book ''2''] empty_store) =
     [(1, ''Dune'', ''Herbert'', 1965)]"
proof -
  have v: "valid_store empty_store"
    by (simp add: valid_store_def empty_store_def)
  have b: "books (serve_all [POST_books (Inr dune), POST_books (Inr untitled),
                     PUT_book ''1'' (Inr long_title), GET_books, DELETE_book ''2''] empty_store) =
     [(1, ''Dune'', ''Herbert'', 1965)]"
    by code_simp
  have e: "books empty_store = []"
    by (simp add: empty_store_def)
  from valid_store_preserved [OF v, of _ "Inr dune" "[POST_books (Inr dune), POST_books (Inr untitled),
                           PUT_book ''1'' (Inr long_title), GET_books, DELETE_book ''2'']" empty_store] v b e
  show ?thesis
    by simp
qed

text \<open>
  C3. When the decoded body of a create or of an update has an empty title, an empty
  author or the year zero, the answer is 400 and the store is what it was: nothing is
  inserted and no row is modified.
\<close>

theorem missing_field_rejected:
  assumes "Title b = [] \<or> Author b = [] \<or> Year b = 0"
  shows "status (fst (CreateBook (Inr b) d)) = 400 \<and> snd (CreateBook (Inr b) d) = d \<and>
         status (fst (UpdateBook s (Inr b) d)) = 400 \<and> snd (UpdateBook s (Inr b) d) = d"
proof -
  from assms have "required_missing b"
    by (simp add: required_missing_def)
  then show ?thesis
    by (simp add: CreateBook_missing UpdateBook_missing http_Error_def)
qed

theorem missing_field_rejected_witness:
  "Title untitled = [] \<and>
   status (fst (CreateBook (Inr untitled) shelf)) = 400 \<and> snd (CreateBook (Inr untitled) shelf) = shelf \<and>
   status (fst (UpdateBook ''1'' (Inr untitled) shelf)) = 400 \<and>
   snd (UpdateBook ''1'' (Inr untitled) shelf) = shelf"
proof -
  have t: "Title untitled = []"
    by (simp add: untitled_def)
  then have "Title untitled = [] \<or> Author untitled = [] \<or> Year untitled = 0"
    by simp
  from missing_field_rejected [OF this, of shelf "''1''"] t show ?thesis
    by simp
qed



text \<open>
  C5 fails as stated. The store holds the row \<open>(1, Dune, Herbert, 1965)\<close>. An update of
  id 1 whose body repeats these values is answered 404 with the text "Book not found",
  although the row exists: the UPDATE changes no row, and the server reports the rows it
  changed. An update of id 1 with a title of 256 characters, a body that passes
  validation, is answered 500 by a strict server.
\<close>

theorem update_valid_body_counterexample:
  "Atoi ''1'' = Inr 1 \<and> (1, ''Dune'', ''Herbert'', 1965) \<in> set (books shelf) \<and>
   \<not> (Title dune = [] \<or> Author dune = [] \<or> Year dune = 0) \<and>
   fst (UpdateBook ''1'' (Inr dune) shelf) = \<lparr>status = 404, payload = Text ''Book not found''\<rparr> \<and>
   \<not> (Title long_title = [] \<or> Author long_title = [] \<or> Year long_title = 0) \<and>
   status (fst (UpdateBook ''1'' (Inr long_title) shelf)) = 500"
proof -
  have 1: "Atoi ''1'' = Inr 1"
    by (simp add: Atoi_def digit_def)
  have 2: "(1, ''Dune'', ''Herbert'', 1965) \<in> set (books shelf)"
    by (simp add: shelf_def)
  have 3: "\<not> required_missing dune" "\<not> required_missing long_title"
    by (simp_all add: required_missing_def dune_def long_title_def)
  have 4: "fits_columns dune"
    by (simp add: fits_columns_def dune_def INT_MIN_def INT_MAX_def)
  have 5: "UpdateBook ''1'' (Inr dune) shelf = (http_Error (Text ''Book not found'') 404, shelf)"
    using 1 3(1) 4
    by (rule UpdateBook_unchanged_row) (simp_all add: ids_def shelf_def row_id_def dune_def)
  have 6: "store_values True (Title long_title) (Author long_title) (Year long_title) = Inl (MySQLError 1406)"
    by (simp add: store_values_def store_varchar_def long_title_def)
  have 7: "status (fst (UpdateBook ''1'' (Inr long_title) shelf)) = 500"
    using 1 3(2) 6 by (simp add: UpdateBook_def update_book_def shelf_def row_id_def http_Error_def)
  from 1 2 3 5 7 show ?thesis
    by (simp add: required_missing_def http_Error_def)
qed

text \<open>
  C5, as amended. Take an update request whose path id is the integer \<open>n\<close> and whose body
  passes validation and fits the columns. If a row with id \<open>n\<close> exists and differs from
  the body in title, author or year, the answer is 200 with the body's record under the
  id \<open>n\<close>, and every row with id \<open>n\<close> now holds the body's values. If no row has id \<open>n\<close>,
  the answer is 404. The id in the body plays no part: any other gives the same answer
  and the same store.
\<close>

theorem update_by_id:
  assumes "Atoi s = Inr n" and "\<not> (Title b = [] \<or> Author b = [] \<or> Year b = 0)" and "fits_columns b"
  shows "(r \<in> set (books d) \<and> row_id r = n \<and> r \<noteq> (n, Title b, Author b, Year b) \<longrightarrow>
            fst (UpdateBook s (Inr b) d) =
              \<lparr>status = 200, payload = Json (book_json (b\<lparr>ID := n\<rparr>))\<rparr> \<and>
            books (snd (UpdateBook s (Inr b) d)) =
              map (\<lambda>x. if row_id x = n then (n, Title b, Author b, Year b) else x) (books d)) \<and>
         (n \<notin> ids d \<longrightarrow> status (fst (UpdateBook s (Inr b) d)) = 404) \<and>
         UpdateBook s (Inr (b\<lparr>ID := k\<rparr>)) d = UpdateBook s (Inr b) d"
proof -
  from assms(2) have v: "\<not> required_missing b"
    by (simp add: required_missing_def)
  have "fst (UpdateBook s (Inr b) d) =
          \<lparr>status = 200, payload = Json (book_json (b\<lparr>ID := n\<rparr>))\<rparr> \<and>
        books (snd (UpdateBook s (Inr b) d)) =
          map (\<lambda>x. if row_id x = n then (n, Title b, Author b, Year b) else x) (books d)"
    if "r \<in> set (books d)" "row_id r = n" "r \<noteq> (n, Title b, Author b, Year b)"
    using UpdateBook_changed [OF assms(1) v assms(3) that] by simp
  moreover have "status (fst (UpdateBook s (Inr b) d)) = 404" if "n \<notin> ids d"
    using UpdateBook_absent [OF assms(1) that v] by (simp add: http_Error_def)
  ultimately show ?thesis
    by (simp add: UpdateBook_ignores_body_id)
qed

theorem update_by_id_witness:
  "Atoi ''1'' = Inr 1 \<and> \<not> (Title dune = [] \<or> Author dune = [] \<or> Year dune = 0) \<and>
   fits_columns (dune\<lparr>Year := 1966\<rparr>) \<and>
   (1, ''Dune'', ''Herbert'', 1965) \<in> set (books shelf) \<and>
   row_id (1, ''Dune'', ''Herbert'', 1965) = 1 \<and>
   (1, ''Dune'', ''Herbert'', 1965) \<noteq> (1, ''Dune'', ''Herbert'', 1966 :: int) \<and>
   fst (UpdateBook ''1'' (Inr (dune\<lparr>Year := 1966\<rparr>)) shelf) =
     \<lparr>status = 200, payload = Json (book_json (dune\<lparr>ID := 1, Year := 1966\<rparr>))\<rparr> \<and>
   books (snd (UpdateBook ''1'' (Inr (dune\<lparr>Year := 1966\<rparr>)) shelf)) =
     [(1, ''Dune'', ''Herbert'', 1966), (2, ''Emma'', ''Austen'', 1815)] \<and>
   Atoi ''7'' = Inr 7 \<and> 7 \<notin> ids shelf \<and>
   status (fst (UpdateBook ''7'' (Inr (dune\<lparr>Year := 1966\<rparr>)) shelf)) = 404"
proof -
  let ?b = "dune\<lparr>Year := 1966\<rparr>"
  have 1: "Atoi ''1'' = Inr 1" "Atoi ''7'' = Inr 7"
    by (simp_all add: Atoi_def digit_def)
  have 2: "\<not> (Title ?b = [] \<or> Author ?b = [] \<or> Year ?b = 0)"
    by (simp add: dune_def)
  have 3: "fits_columns ?b"
    by (simp add: fits_columns_def dune_def INT_MIN_def INT_MAX_def)
  have 4: "(1, ''Dune'', ''Herbert'', 1965) \<in> set (books shelf)" "7 \<notin> ids shelf"
    "row_id (1, ''Dune'', ''Herbert'', 1965) = 1"
    by (simp_all add: shelf_def ids_def row_id_def)
  have 5: "dune\<lparr>Year := 1966, ID := 1\<rparr> = dune\<lparr>ID := 1, Year := 1966\<rparr>"
    by (simp add: dune_def)
  have 6: "map (\<lambda>x. if row_id x = 1 then (1, Title ?b, Author ?b, Year ?b) else x) (books shelf) =
             [(1, ''Dune'', ''Herbert'', 1966), (2, ''Emma'', ''Austen'', 1815)]"
    by (simp add: shelf_def row_id_def dune_def)
  have 7: "\<not> (Title dune = [] \<or> Author dune = [] \<or> Year dune = 0)"
    by (simp add: dune_def)
  from update_by_id [OF 1(1) 2 3, of "(1, ''Dune'', ''Herbert'', 1965)" shelf]
       update_by_id [OF 1(2) 2 3, of _ shelf] 1 3 4 7
  show ?thesis
    by (simp add: 6 5)
qed

text \<open>
  C6 fails as stated. No row of the store has id 7, and an update of id 7 whose body has
  an empty title is answered 400, not 404: the body is validated before the store is
  asked.
\<close>

theorem update_absent_id_counterexample:
  "Atoi ''7'' = Inr 7 \<and> 7 \<notin> ids shelf \<and>
   fst (UpdateBook ''7'' (Inr untitled) shelf) =
     \<lparr>status = 400, payload = Text ''Invalid request body: Title, Author, and Year are required''\<rparr>"
proof -
  have 1: "Atoi ''7'' = Inr 7"
    by (simp add: Atoi_def digit_def)
  have 2: "7 \<notin> ids shelf"
    by (simp add: shelf_def ids_def row_id_def)
  have 3: "required_missing untitled"
    by (simp add: required_missing_def untitled_def)
  from 1 2 3 show ?thesis
    by (simp add: UpdateBook_def http_Error_def)
qed

text \<open>
  C6, as amended. Take an update request whose path id is the integer \<open>n\<close>, on a store
  without a row of id \<open>n\<close>. Whatever the body, the store is what it was, and in
  particular no row is inserted; the answer is 404 when the body is decoded and passes
  validation, and 400 otherwise.
\<close>

theorem update_absent_id:
  assumes "Atoi s = Inr n" and "n \<notin> ids d"
  shows "snd (UpdateBook s body d) = d \<and>
         status (fst (UpdateBook s body d)) =
           (case body of
              Inl err \<Rightarrow> 400
            | Inr b \<Rightarrow> if Title b = [] \<or> Author b = [] \<or> Year b = 0 then 400 else 404)"
proof (cases body)
  case (Inl err)
  with assms(1) show ?thesis
    by (simp add: UpdateBook_decode_error http_Error_def)
next
  case (Inr b)
  show ?thesis
  proof (cases "required_missing b")
    case True
    then show ?thesis
      by (simp add: Inr UpdateBook_missing required_missing_def)
  next
    case False
    with assms show ?thesis
      by (simp add: Inr UpdateBook_absent http_Error_def required_missing_def)
  qed
qed

theorem update_absent_id_witness:
  "Atoi ''7'' = Inr 7 \<and> 7 \<notin> ids shelf \<and>
   \<not> (Title dune = [] \<or> Author dune = [] \<or> Year dune = 0) \<and>
   snd (UpdateBook ''7'' (Inr dune) shelf) = shelf \<and>
   status (fst (UpdateBook ''7'' (Inr dune) shelf)) = 404"
proof -
  have 1: "Atoi ''7'' = Inr 7"
    by (simp add: Atoi_def digit_def)
  have 2: "7 \<notin> ids shelf"
    by (simp add: shelf_def ids_def row_id_def)
  have 3: "\<not> (Title dune = [] \<or> Author dune = [] \<or> Year dune = 0)"
    by (simp add: dune_def)
  from update_absent_id [OF 1 2, of "Inr dune"] 1 2 3 show ?thesis
    by simp
qed

text \<open>
  C7. When a delete of id \<open>n\<close> has answered 200, and the requests served after it
  -- any number of them, of any kind -- do not re-assign the id \<open>n\<close> by a create, a
  second delete of id \<open>n\<close> answers 404 and leaves the store as it found it.
\<close>

theorem delete_twice:
  assumes "Atoi s = Inr n" and "Atoi s' = Inr n" and "status (fst (DeleteBook s d)) = 200"
    and "\<not> reassigns n rqs (snd (DeleteBook s d))"
  shows "status (fst (DeleteBook s' (serve_all rqs (snd (DeleteBook s d))))) = 404 \<and>
         snd (DeleteBook s' (serve_all rqs (snd (DeleteBook s d)))) =
           serve_all rqs (snd (DeleteBook s d))"
proof -
  have "n \<notin> ids (snd (DeleteBook s d))"
    using assms(1) by (rule DeleteBook_removes)
  then have "n \<notin> ids (serve_all rqs (snd (DeleteBook s d)))"
    using assms(4) by (rule serve_all_keeps_absent)
  with assms(2) show ?thesis
    by (simp add: DeleteBook_absent http_Error_def)
qed

theorem delete_twice_witness:
  "Atoi ''1'' = Inr 1 \<and> Atoi ''01'' = Inr 1 \<and> status (fst (DeleteBook ''1'' shelf)) = 200 \<and>
   \<not> reassigns 1 [POST_books (Inr emma), GET_books, PUT_book ''2'' (Inr dune), DELETE_book ''2'']
        (snd (DeleteBook ''1'' shelf)) \<and>
   serve_all [POST_books (Inr emma), GET_books, PUT_book ''2'' (Inr dune), DELETE_book ''2'']
     (snd (DeleteBook ''1'' shelf)) =
     \<lparr>books = [(3, ''Emma'', ''Austen'', 1815)], auto_increment = 4, strict = True\<rparr> \<and>
   status (fst (DeleteBook ''01''
     (serve_all [POST_books (Inr emma), GET_books, PUT_book ''2'' (Inr dune), DELETE_book ''2'']
        (snd (DeleteBook ''1'' shelf))))) = 404 \<and>
   snd (DeleteBook ''01''
     (serve_all [POST_books (Inr emma), GET_books, PUT_book ''2'' (Inr dune), DELETE_book ''2'']
        (snd (DeleteBook ''1'' shelf)))) =
     \<lparr>books = [(3, ''Emma'', ''Austen'', 1815)], auto_increment = 4, strict = True\<rparr> \<and>
   status (fst (DeleteBook ''1'' (snd (DeleteBook ''1'' shelf)))) = 404 \<and>
   snd (DeleteBook ''1'' (snd (DeleteBook ''1'' shelf))) = snd (DeleteBook ''1'' shelf)"
proof -
  let ?rqs = "[POST_books (Inr emma), GET_books, PUT_book ''2'' (Inr dune), DELETE_book ''2'']"
  have 1: "Atoi ''1'' = Inr 1" "Atoi ''01'' = Inr 1"
    by (simp_all add: Atoi_def digit_def)
  have 2: "1 \<in> ids shelf"
    by (simp add: ids_def shelf_def row_id_def)
  have 3: "status (fst (DeleteBook ''1'' shelf)) = 200"
    using 1 2 by (simp add: DeleteBook_present)
  have 4: "\<not> reassigns 1 ?rqs (snd (DeleteBook ''1'' shelf))"
    by code_simp
  have 5: "serve_all ?rqs (snd (DeleteBook ''1'' shelf)) =
             \<lparr>books = [(3, ''Emma'', ''Austen'', 1815)], auto_increment = 4, strict = True\<rparr>"
    by code_simp
  have 6: "\<not> reassigns 1 [] (snd (DeleteBook ''1'' shelf))"
    by simp
  from delete_twice [OF 1 3 4] delete_twice [OF 1(1) 1(1) 3 6] 1 3 4 5 show ?thesis
    by simp
qed

text \<open>
  C8. In every store state the list operation answers 200 with a JSON array that holds
  one object per row of the table, in the order of the rows: the object of the row
  \<open>(i, t, a, y)\<close> has the fields \<open>id\<close>, \<open>title\<close>, \<open>author\<close> and \<open>year\<close> with the values
  \<open>i\<close>, \<open>t\<close>, \<open>a\<close> and \<open>y\<close>. The body is never \<^verbatim>\<open>null\<close>: when the table has no rows it
  is the empty array.
\<close>

theorem GetBooks_lists_every_row:
  "status (fst (GetBooks d)) = 200 \<and>
   payload (fst (GetBooks d)) =
     Json (JArray (map (\<lambda>(i, t, a, y).
        JObject [(''id'', JNumber i), (''title'', JString t),
                 (''author'', JString a), (''year'', JNumber y)]) (books d))) \<and>
   payload (fst (GetBooks d)) \<noteq> Json JNull \<and>
   (books d = [] \<longrightarrow> payload (fst (GetBooks d)) = Json (JArray []))"
proof -
  have "(\<lambda>r. book_json (book_of_row r)) =
        (\<lambda>(i, t, a, y). JObject [(''id'', JNumber i), (''title'', JString t),
                                  (''author'', JString a), (''year'', JNumber y)])"
    by (auto simp: book_json_def book_of_row_def)
  then show ?thesis
    by (simp add: GetBooks_eq)
qed

theorem GetBooks_lists_every_row_witness:
  "books empty_store = [] \<and> fst (GetBooks empty_store) = \<lparr>status = 200, payload = Json (JArray [])\<rparr> \<and>
   books shelf = [(1, ''Dune'', ''Herbert'', 1965), (2, ''Emma'', ''Austen'', 1815)] \<and>
   fst (GetBooks shelf) =
     \<lparr>status = 200,
      payload = Json (JArray
        [JObject [(''id'', JNumber 1), (''title'', JString ''Dune''),
                  (''author'', JString ''Herbert''), (''year'', JNumber 1965)],
         JObject [(''id'', JNumber 2), (''title'', JString ''Emma''),
                  (''author'', JString ''Austen''), (''year'', JNumber 1815)]])\<rparr>"
proof -
  have e: "books empty_store = []"
    by (simp add: empty_store_def)
  have b: "books shelf = [(1, ''Dune'', ''Herbert'', 1965), (2, ''Emma'', ''Austen'', 1815)]"
    by (simp add: shelf_def)
  have 1: "status (fst (GetBooks empty_store)) = 200 \<and>
           payload (fst (GetBooks empty_store)) = Json (JArray [])"
    using GetBooks_lists_every_row [of empty_store] e by simp
  have 2: "status (fst (GetBooks shelf)) = 200 \<and>
           payload (fst (GetBooks shelf)) =
             Json (JArray
               [JObject [(''id'', JNumber 1), (''title'', JString ''Dune''),
                         (''author'', JString ''Herbert''), (''year'', JNumber 1965)],
                JObject [(''id'', JNumber 2), (''title'', JString ''Emma''),
                         (''author'', JString ''Austen''), (''year'', JNumber 1815)]])"
    using GetBooks_lists_every_row [of shelf] b by simp
  from 1 have 3: "fst (GetBooks empty_store) = \<lparr>status = 200, payload = Json (JArray [])\<rparr>"
    by (cases "fst (GetBooks empty_store)") simp
  from 2 have 4: "fst (GetBooks shelf) =
     \<lparr>status = 200,
      payload = Json (JArray
        [JObject [(''id'', JNumber 1), (''title'', JString ''Dune''),
                  (''author'', JString ''Herbert''), (''year'', JNumber 1965)],
         JObject [(''id'', JNumber 2), (''title'', JString ''Emma''),
                  (''author'', JString ''Austen''), (''year'', JNumber 1815)]])\<rparr>"
    by (cases "fst (GetBooks shelf)") simp
  from e b 3 4 show ?thesis
    by simp
qed

text \<open>
  C9 fails as stated. The identifiers \<open>0\<close> and \<open>-3\<close> are accepted as integers and match no
  row, yet an update answers 400 for them when its body has an empty title or cannot be
  decoded: the update validates the body before it asks the store.
\<close>

theorem nonpositive_id_counterexample:
  "Atoi ''0'' = Inr 0 \<and> Atoi ''-3'' = Inr (- 3) \<and> 0 \<notin> ids shelf \<and> - 3 \<notin> ids shelf \<and>
   status (fst (UpdateBook ''0'' (Inr untitled) shelf)) = 400 \<and>
   status (fst (UpdateBook ''-3'' (Inl (DecodeError ''unexpected EOF'')) shelf)) = 400"
proof -
  have 1: "Atoi ''0'' = Inr 0" "Atoi ''-3'' = Inr (- 3)"
    by (simp_all add: Atoi_def digit_def)
  have 2: "0 \<notin> ids shelf" "- 3 \<notin> ids shelf"
    by (simp_all add: shelf_def ids_def row_id_def)
  have 3: "required_missing untitled"
    by (simp add: required_missing_def untitled_def)
  from 1 2 3 show ?thesis
    by (simp add: UpdateBook_def http_Error_def)
qed

text \<open>
  C9, as amended. When the path identifier is accepted as an integer \<open>n \<le> 0\<close> and no row
  has id \<open>n\<close>, get-by-id and delete answer 404, and so does an update whose body is
  decoded and passes validation (the answer is 400 otherwise, for the body). The check of the identifier accepts every numeric string (an optional sign,
  then decimal digits) whose value fits 64 bits, with that value, and rejects a string
  only if it is not numeric or its value is out of that range.
\<close>

theorem nonpositive_id:
  "(Atoi s = Inr n \<and> n \<le> 0 \<and> n \<notin> ids d \<longrightarrow>
      status (fst (GetBook s d)) = 404 \<and> status (fst (DeleteBook s d)) = 404 \<and>
      status (fst (UpdateBook s body d)) =
        (case body of
           Inl err \<Rightarrow> 400
         | Inr b \<Rightarrow> if Title b = [] \<or> Author b = [] \<or> Year b = 0 then 400 else 404)) \<and>
   (numeric s \<and> in_int64 (int_value s) \<longrightarrow> Atoi s = Inr (int_value s)) \<and>
   (isl (Atoi s) \<longleftrightarrow> \<not> numeric s \<or> \<not> in_int64 (int_value s))"
proof -
  have "status (fst (UpdateBook s body d)) =
          (case body of
             Inl err \<Rightarrow> 400
           | Inr b \<Rightarrow> if Title b = [] \<or> Author b = [] \<or> Year b = 0 then 400 else 404)"
    if "Atoi s = Inr n" "n \<notin> ids d"
  proof (cases body)
    case (Inl err)
    with that(1) show ?thesis
      by (simp add: UpdateBook_decode_error http_Error_def)
  next
    case (Inr b)
    show ?thesis
    proof (cases "required_missing b")
      case True
      then show ?thesis
        by (simp add: Inr UpdateBook_missing required_missing_def)
    next
      case False
      with that show ?thesis
        by (simp add: Inr UpdateBook_absent http_Error_def required_missing_def)
    qed
  qed
  then show ?thesis
    by (simp add: GetBook_absent DeleteBook_absent http_Error_def Atoi_accepts Atoi_rejects)
qed

theorem nonpositive_id_witness:
  "Atoi ''0'' = Inr 0 \<and> 0 \<notin> ids shelf \<and>
   status (fst (GetBook ''0'' shelf)) = 404 \<and> status (fst (DeleteBook ''0'' shelf)) = 404 \<and>
   \<not> (Title dune = [] \<or> Author dune = [] \<or> Year dune = 0) \<and>
   status (fst (UpdateBook ''0'' (Inr dune) shelf)) = 404 \<and>
   numeric ''-3'' \<and> in_int64 (int_value ''-3'') \<and> int_value ''-3'' = - 3 \<and> Atoi ''-3'' = Inr (- 3) \<and>
   \<not> numeric ''1x'' \<and> isl (Atoi ''1x'') \<and>
   \<not> in_int64 (int_value ''9223372036854775808'') \<and> isl (Atoi ''9223372036854775808'')"
proof -
  have 1: "Atoi ''0'' = Inr 0"
    by (simp add: Atoi_def digit_def)
  have 2: "0 \<notin> ids shelf"
    by (simp add: shelf_def ids_def row_id_def)
  have 3: "\<not> (Title dune = [] \<or> Author dune = [] \<or> Year dune = 0)"
    by (simp add: dune_def)
  have 4: "numeric ''-3''" "int_value ''-3'' = - 3" "in_int64 (- 3)" "\<not> numeric ''1x''"
    "\<not> in_int64 (int_value ''9223372036854775808'')"
    by (simp_all add: numeric_def unsigned_part_def is_digit_def int_value_def decimal_def in_int64_def)
  have a: "status (fst (GetBook ''0'' shelf)) = 404 \<and> status (fst (DeleteBook ''0'' shelf)) = 404 \<and>
           status (fst (UpdateBook ''0'' (Inr dune) shelf)) = 404"
    using nonpositive_id [of "''0''" 0 shelf "Inr dune"] 1 2 3 by simp
  have b: "Atoi ''-3'' = Inr (- 3)"
    using nonpositive_id [of "''-3''"] 4 by simp
  have c: "isl (Atoi ''1x'')"
    using nonpositive_id [of "''1x''"] 4 by simp
  have d: "isl (Atoi ''9223372036854775808'')"
    using nonpositive_id [of "''9223372036854775808''"] 4 by simp
  from 1 2 3 4 a b c d show ?thesis
    by simp
qed

text \<open>
  C10. An update or a delete whose path id is the integer \<open>n\<close> leaves every row with
  another id as it was, in its place among the others; get-by-id and list leave the
  whole store as it was.
\<close>

theorem other_rows_unchanged:
  "(Atoi s = Inr n \<longrightarrow>
      filter (\<lambda>r. row_id r \<noteq> n) (books (snd (UpdateBook s body d))) =
        filter (\<lambda>r. row_id r \<noteq> n) (books d) \<and>
      filter (\<lambda>r. row_id r \<noteq> n) (books (snd (DeleteBook s d))) =
        filter (\<lambda>r. row_id r \<noteq> n) (books d)) \<and>
   snd (GetBook s d) = d \<and> snd (GetBooks d) = d"
  by (simp add: UpdateBook_frame DeleteBook_frame GetBook_store GetBooks_eq)

theorem other_rows_unchanged_witness:
  "Atoi ''1'' = Inr 1 \<and>
   books (snd (UpdateBook ''1'' (Inr (dune\<lparr>Year := 1966\<rparr>)) shelf)) =
     [(1, ''Dune'', ''Herbert'', 1966), (2, ''Emma'', ''Austen'', 1815)] \<and>
   filter (\<lambda>r. row_id r \<noteq> 1) (books (snd (UpdateBook ''1'' (Inr (dune\<lparr>Year := 1966\<rparr>)) shelf))) =
     filter (\<lambda>r. row_id r \<noteq> 1) (books shelf) \<and>
   books (snd (DeleteBook ''1'' shelf)) = [(2, ''Emma'', ''Austen'', 1815)] \<and>
   filter (\<lambda>r. row_id r \<noteq> 1) (books (snd (DeleteBook ''1'' shelf))) =
     filter (\<lambda>r. row_id r \<noteq> 1) (books shelf) \<and>
   snd (GetBook ''1'' shelf) = shelf \<and> snd (GetBooks shelf) = shelf"
proof -
  have 1: "Atoi ''1'' = Inr 1"
    by (simp add: Atoi_def digit_def)
  have 2: "books (snd (UpdateBook ''1'' (Inr (dune\<lparr>Year := 1966\<rparr>)) shelf)) =
     [(1, ''Dune'', ''Herbert'', 1966), (2, ''Emma'', ''Austen'', 1815)]"
    "books (snd (DeleteBook ''1'' shelf)) = [(2, ''Emma'', ''Austen'', 1815)]"
    by code_simp+
  from other_rows_unchanged [of "''1''" 1 "Inr (dune\<lparr>Year := 1966\<rparr>)" shelf] 1 2 show ?thesis
    by simp
qed

end
